theory Spec2Isabelle
  imports Main "HOL-Library.Word"
begin

section \<open>The DPX loader of plug-ins/common/file-dpx.c\<close>

text \<open>
  The theory embeds the two procedures of the plug-in that touch a file, \<open>dpx_load\<close>
  and \<open>load_image\<close>, together with the part of the C library they call
  (\<open>g_fopen\<close>, \<open>fread\<close>, \<open>fclose\<close>, \<open>g_set_error\<close>).

  In the source, everything of \<open>load_image\<close> that follows the read of the four magic
  bytes (lines 210 to 279: the seek to offset 772, the two dimension reads, the size check,
  the allocation and the scanline loop) stands between \<open>/*\<close> and \<open>*/\<close>. It is not
  part of the program, and it is not part of the model.
\<close>

subsection \<open>Data\<close>

type_synonym byte = "8 word"

text \<open>
  A \<open>FILE *\<close> stream opened for reading: the bytes of the file, the read position, and
  whether \<open>fclose\<close> has been called on it. \<open>f_reads\<close> is a log kept for the proofs:
  the position and the number of bytes asked for by every \<open>fread\<close> so far.
\<close>

record FILE =
  f_data :: "byte list"
  f_pos :: nat
  f_reads :: "(nat \<times> nat) list"
  f_closed :: bool

text \<open>
  The file system as \<open>g_fopen\<close> sees it: a path either cannot be opened, with the
  \<open>errno\<close> the failure leaves behind, or it can, and has contents.
\<close>

type_synonym filesystem = "string \<Rightarrow> int + byte list"

datatype GFile = GFile (g_file_peek_path: string)

datatype GErrorDomain = G_FILE_ERROR | GIMP_PLUG_IN_ERROR

text \<open>
  A \<open>GError\<close>. For the domain \<open>G_FILE_ERROR\<close> the source computes the code as
  \<open>g_file_error_from_errno (errno)\<close>; the model keeps the \<open>errno\<close> it is computed
  from. The message is the format string of the call.
\<close>

record GError =
  domain :: GErrorDomain
  from_errno :: int
  message :: string

text \<open>
  The image object handed to the host. The source builds none, so only its type matters;
  its fields are those of the raster the specification describes: the two dimensions and
  the rows, each row the 16-bit samples R, G, B, A of its pixels one after the other.
\<close>

record GimpImage =
  img_width :: nat
  img_height :: nat
  img_rows :: "16 word list list"

text \<open>
  What a call of \<open>load_image\<close> leaves: the returned pointer (\<open>None\<close> is \<open>NULL\<close>), the
  caller's \<open>GError *\<close> variable, which is \<open>NULL\<close> on entry, the stream (\<open>None\<close> when
  \<open>g_fopen\<close> failed) and \<open>errno\<close>.
\<close>

record load_result =
  res_image :: "GimpImage option"
  res_error :: "GError option"
  res_fp :: "FILE option"
  res_errno :: int

datatype GimpPDBStatusType = GIMP_PDB_EXECUTION_ERROR | GIMP_PDB_SUCCESS

record GimpValueArray =
  val_status :: GimpPDBStatusType
  val_error :: "GError option"
  val_image :: "GimpImage option"

subsection \<open>The C library\<close>

definition g_fopen :: "filesystem \<Rightarrow> string \<Rightarrow> int \<Rightarrow> FILE option \<times> int" where
  "g_fopen fs path errno =
     (case fs path of
        Inl e \<Rightarrow> (None, e)
      | Inr bs \<Rightarrow> (Some \<lparr>f_data = bs, f_pos = 0, f_reads = [], f_closed = False\<rparr>, errno))"

text \<open>
  \<open>fread (ptr, sz, nmemb, fp)\<close>: the bytes stored at \<open>ptr\<close>, the number of complete
  items read, and the stream, advanced by the bytes that were read. A short read at the
  end of the file leaves \<open>errno\<close> alone.
\<close>

definition fread :: "nat \<Rightarrow> nat \<Rightarrow> FILE \<Rightarrow> byte list \<times> nat \<times> FILE" where
  "fread sz nmemb fp =
     (let want = sz * nmemb;
          got = min want (length (f_data fp) - f_pos fp);
          buf = take got (drop (f_pos fp) (f_data fp))
      in (buf,
          (if sz = 0 then 0 else got div sz),
          fp\<lparr>f_pos := f_pos fp + got, f_reads := f_reads fp @ [(f_pos fp, want)]\<rparr>))"

definition fclose :: "FILE \<Rightarrow> FILE" where
  "fclose fp = fp\<lparr>f_closed := True\<rparr>"

definition g_set_error :: "GErrorDomain \<Rightarrow> int \<Rightarrow> string \<Rightarrow> GError option" where
  "g_set_error d c msg = Some \<lparr>domain = d, from_errno = c, message = msg\<rparr>"

subsection \<open>load_image and dpx_load\<close>

text \<open>
  \<open>load_image\<close>, lines 174 to 281. The variable \<open>image\<close> of the source (here \<open>img\<close>,
  as HOL has a constant of that name) is initialised to \<open>NULL\<close> (line 180) and
  returned at line 280; no statement between the two assigns it. The four bytes read into
  \<open>magic_number\<close> are not looked at again. On the last path \<open>fclose\<close> is not called.
\<close>

definition load_image :: "filesystem \<Rightarrow> int \<Rightarrow> GFile \<Rightarrow> load_result" where
  "load_image fs errno0 file =
     (let img = None in
      case g_fopen fs (g_file_peek_path file) errno0 of
        (None, errno) \<Rightarrow>
          \<lparr>res_image = None,
           res_error = g_set_error G_FILE_ERROR errno ''Could not open '%s' for reading: %s'',
           res_fp = None, res_errno = errno\<rparr>
      | (Some fp, errno) \<Rightarrow>
          (case fread 4 1 fp of
             (magic_number, n, fp1) \<Rightarrow>
               if n = 0
               then \<lparr>res_image = None,
                     res_error = g_set_error G_FILE_ERROR errno ''Failed to read Dpx header'',
                     res_fp = Some (fclose fp1), res_errno = errno\<rparr>
               else \<lparr>res_image = img, res_error = None,
                     res_fp = Some fp1, res_errno = errno\<rparr>))"

text \<open>
  \<open>dpx_load\<close>, lines 143 to 172: \<open>error\<close> starts as \<open>NULL\<close>; a \<open>NULL\<close> image is
  answered with \<open>GIMP_PDB_EXECUTION_ERROR\<close> and whatever \<open>error\<close> holds.
\<close>

definition gimp_procedure_new_return_values ::
    "GimpPDBStatusType \<Rightarrow> GError option \<Rightarrow> GimpValueArray" where
  "gimp_procedure_new_return_values st err =
     \<lparr>val_status = st, val_error = err, val_image = None\<rparr>"

definition dpx_load :: "filesystem \<Rightarrow> int \<Rightarrow> GFile \<Rightarrow> GimpValueArray" where
  "dpx_load fs errno0 file =
     (let r = load_image fs errno0 file in
      case res_image r of
        None \<Rightarrow> gimp_procedure_new_return_values GIMP_PDB_EXECUTION_ERROR (res_error r)
      | Some img \<Rightarrow>
          (gimp_procedure_new_return_values GIMP_PDB_SUCCESS None)\<lparr>val_image := Some img\<rparr>)"

subsection \<open>DPX files\<close>

text \<open>
  The source writes no file. The layout below is the one the specification gives (its
  section 6), and it serves to build the files the statements are about: four magic bytes,
  the width and the height as big-endian 32-bit numbers at offsets 772 and 776, then the
  rows, each sample a big-endian 16-bit number.
\<close>

definition SDPX :: "byte list" where
  "SDPX = [0x53, 0x44, 0x50, 0x58]"

definition XPDS :: "byte list" where
  "XPDS = [0x58, 0x50, 0x44, 0x53]"

definition be32 :: "nat \<Rightarrow> byte list" where
  "be32 n = [of_nat (n div 2 ^ 24), of_nat (n div 2 ^ 16), of_nat (n div 2 ^ 8), of_nat n]"

definition be16 :: "16 word \<Rightarrow> byte list" where
  "be16 s = [of_nat (unat s div 2 ^ 8), of_nat (unat s)]"

definition encode_rows :: "16 word list list \<Rightarrow> byte list" where
  "encode_rows rows = concat (map (\<lambda>row. concat (map be16 row)) rows)"

definition dpx_file :: "byte list \<Rightarrow> nat \<Rightarrow> nat \<Rightarrow> 16 word list list \<Rightarrow> byte list" where
  "dpx_file magic w h rows = magic @ replicate 768 0 @ be32 w @ be32 h @ encode_rows rows"

definition encode_raster :: "GimpImage \<Rightarrow> byte list" where
  "encode_raster img = dpx_file SDPX (img_width img) (img_height img) (img_rows img)"

definition be32_at :: "byte list \<Rightarrow> nat \<Rightarrow> nat" where
  "be32_at bs k =
     unat (bs ! k) * 2 ^ 24 + unat (bs ! (k + 1)) * 2 ^ 16 + unat (bs ! (k + 2)) * 2 ^ 8
       + unat (bs ! (k + 3))"

definition has_dpx_header :: "byte list \<Rightarrow> nat \<Rightarrow> nat \<Rightarrow> bool" where
  "has_dpx_header bs w h \<longleftrightarrow>
     780 \<le> length bs \<and> take 4 bs = SDPX \<and> be32_at bs 772 = w \<and> be32_at bs 776 = h"

definition row_size :: "nat \<Rightarrow> nat" where
  "row_size w = w * 4 * 2"

definition valid_dimensions :: "nat \<Rightarrow> nat \<Rightarrow> nat \<Rightarrow> bool" where
  "valid_dimensions max_dim w h \<longleftrightarrow> 1 \<le> w \<and> w \<le> max_dim \<and> 1 \<le> h \<and> h \<le> max_dim"

definition valid_dpx :: "nat \<Rightarrow> byte list \<Rightarrow> nat \<Rightarrow> nat \<Rightarrow> bool" where
  "valid_dpx max_dim bs w h \<longleftrightarrow>
     has_dpx_header bs w h \<and> valid_dimensions max_dim w h \<and> 780 + h * row_size w \<le> length bs"

definition well_formed_raster :: "GimpImage \<Rightarrow> bool" where
  "well_formed_raster img \<longleftrightarrow>
     length (img_rows img) = img_height img \<and>
     list_all (\<lambda>row. length row = 4 * img_width img) (img_rows img)"

subsection \<open>The statements of the specification, on a result of load_image\<close>

text \<open>The error kinds of the specification (its section 7).\<close>

datatype DecodeError =
  BadMagic | TruncatedHeader | SeekError | DimensionsTooLarge | DimensionOverflow
  | PrematureEOF | OutOfMemory | IOError

text \<open>
  The kind of an error, read off its message. The messages are all those the source file
  holds: the two of the program (the failed \<open>g_fopen\<close>, an \<open>IOError\<close>, and the failed
  read of the magic, a \<open>TruncatedHeader\<close>) and the five of the disabled lines 210 to 279,
  so that an error with the message of line 233 counts as \<open>DimensionsTooLarge\<close> and one
  with the message of line 264 as \<open>PrematureEOF\<close>. No message of the source stands for
  \<open>BadMagic\<close> or for \<open>DimensionOverflow\<close> (the failed \<open>g_size_checked_mul\<close> shares
  the message of line 233).
\<close>

definition error_kind :: "GError \<Rightarrow> DecodeError" where
  "error_kind e =
     (if message e = ''Failed to read Dpx header'' then TruncatedHeader
      else if message e = ''Failed to seek to Dpx image dimensions'' then SeekError
      else if message e = ''Failed to read Dpx image dimensions'' then TruncatedHeader
      else if message e = ''Image dimensions too large: width %d x height %d''
        then DimensionsTooLarge
      else if message e = ''There was not enough memory to complete the operation.''
        then OutOfMemory
      else if message e = ''Premature end of Dpx pixel data'' then PrematureEOF
      else IOError)"

definition fails_with :: "load_result \<Rightarrow> DecodeError \<Rightarrow> bool" where
  "fails_with r k \<longleftrightarrow>
     res_image r = None \<and> (case res_error r of None \<Rightarrow> False | Some e \<Rightarrow> error_kind e = k)"

definition returns_raster :: "load_result \<Rightarrow> nat \<Rightarrow> nat \<Rightarrow> bool" where
  "returns_raster r w h \<longleftrightarrow>
     (case res_image r of
        None \<Rightarrow> False
      | Some img \<Rightarrow> img_width img = w \<and> img_height img = h \<and> well_formed_raster img)"

text \<open>The reads made on the stream (none when it was not opened).\<close>

definition reads_made :: "load_result \<Rightarrow> (nat \<times> nat) list" where
  "reads_made r = (case res_fp r of None \<Rightarrow> [] | Some fp \<Rightarrow> f_reads fp)"

text \<open>
  The reads of the scanline loop the specification describes: row \<open>i\<close> of a file of
  width \<open>w\<close> is one read of \<open>row_size w\<close> bytes at \<open>780 + i * row_size w\<close>.
\<close>

definition expected_row_reads :: "nat \<Rightarrow> nat \<Rightarrow> (nat \<times> nat) list" where
  "expected_row_reads w h = map (\<lambda>i. (780 + i * row_size w, row_size w)) [0..<h]"

definition row_reads :: "load_result \<Rightarrow> (nat \<times> nat) list" where
  "row_reads r = filter (\<lambda>(p, n). 780 \<le> p) (reads_made r)"

definition rows_read_in_order :: "load_result \<Rightarrow> nat \<Rightarrow> nat \<Rightarrow> bool" where
  "rows_read_in_order r w h \<longleftrightarrow> row_reads r = expected_row_reads w h"

subsection \<open>Concrete files\<close>

definition scenario1_file :: "byte list" where
  "scenario1_file =
     dpx_file SDPX 2 1 [[0x0100, 0x0200, 0x0300, 0xFFFF, 0x0400, 0x0500, 0x0600, 0xFFFF]]"

definition scenario2_file :: "byte list" where
  "scenario2_file = take (780 + 12) scenario1_file"

definition scenario3_file :: "byte list" where
  "scenario3_file =
     dpx_file XPDS 2 1 [[0x0100, 0x0200, 0x0300, 0xFFFF, 0x0400, 0x0500, 0x0600, 0xFFFF]]"

definition wide_file :: "byte list" where
  "wide_file = dpx_file SDPX 0xFFFFFFFF 1 []"

definition short_file :: "byte list" where
  "short_file = [0x53, 0x44, 0x50]"

definition raster1 :: GimpImage where
  "raster1 = \<lparr>img_width = 1, img_height = 2, img_rows = [[1, 2, 3, 4], [5, 6, 7, 0xFFFF]]\<rparr>"

definition ENOENT :: int where
  "ENOENT = 2"

definition scenario_fs :: filesystem where
  "scenario_fs path =
     (if path = ''scenario1.dpx'' then Inr scenario1_file
      else if path = ''scenario2.dpx'' then Inr scenario2_file
      else if path = ''scenario3.dpx'' then Inr scenario3_file
      else if path = ''wide.dpx'' then Inr wide_file
      else if path = ''short.dpx'' then Inr short_file
      else if path = ''roundtrip.dpx'' then Inr (encode_raster raster1)
      else Inl ENOENT)"

section \<open>Properties\<close>

subsection \<open>The three paths of load_image\<close>

lemma load_image_unopenable:
  "fs (g_file_peek_path file) = Inl en \<Longrightarrow>
   load_image fs e file =
     \<lparr>res_image = None,
      res_error = Some \<lparr>domain = G_FILE_ERROR, from_errno = en,
                         message = ''Could not open '%s' for reading: %s''\<rparr>,
      res_fp = None, res_errno = en\<rparr>"
  by (simp add: load_image_def g_fopen_def g_set_error_def)

lemma load_image_short:
  "fs (g_file_peek_path file) = Inr bs \<Longrightarrow> length bs < 4 \<Longrightarrow>
   load_image fs e file =
     \<lparr>res_image = None,
      res_error = Some \<lparr>domain = G_FILE_ERROR, from_errno = e,
                         message = ''Failed to read Dpx header''\<rparr>,
      res_fp = Some \<lparr>f_data = bs, f_pos = length bs, f_reads = [(0, 4)], f_closed = True\<rparr>,
      res_errno = e\<rparr>"
  by (simp add: load_image_def g_fopen_def g_set_error_def fread_def fclose_def Let_def min_def)

lemma load_image_magic_read:
  "fs (g_file_peek_path file) = Inr bs \<Longrightarrow> 4 \<le> length bs \<Longrightarrow>
   load_image fs e file =
     \<lparr>res_image = None, res_error = None,
      res_fp = Some \<lparr>f_data = bs, f_pos = 4, f_reads = [(0, 4)], f_closed = False\<rparr>,
      res_errno = e\<rparr>"
  by (simp add: load_image_def g_fopen_def fread_def Let_def min_def)

subsection \<open>The layout of a DPX file\<close>

lemma length_be32: "length (be32 n) = 4" by (simp add: be32_def)

lemma be32_digits:
  fixes n :: nat
  assumes "n < 2 ^ 32"
  shows "(n div 2 ^ 24 mod 256) * 2 ^ 24 + (n div 2 ^ 16 mod 256) * 2 ^ 16
           + (n div 2 ^ 8 mod 256) * 2 ^ 8 + n mod 256 = n"
proof -
  define q1 where "q1 = n div 2 ^ 8"
  define q2 where "q2 = n div 2 ^ 16"
  define q3 where "q3 = n div 2 ^ 24"
  define r0 where "r0 = n mod 256"
  define r1 where "r1 = q1 mod 256"
  define r2 where "r2 = q2 mod 256"
  define r3 where "r3 = q3 mod 256"
  have q21: "q2 = q1 div 256" and q32: "q3 = q2 div 256"
    by (simp_all add: q1_def q2_def q3_def div_mult2_eq [symmetric])
  have a: "r3 = q3" using assms by (simp add: r3_def q3_def less_mult_imp_div_less)
  have b: "q2 = q3 * 256 + r2" unfolding q32 r2_def by simp
  have c: "q1 = q2 * 256 + r1" unfolding q21 r1_def by simp
  have d: "n = q1 * 256 + r0" unfolding q1_def r0_def by simp
  have "r3 * 2 ^ 24 + r2 * 2 ^ 16 + r1 * 2 ^ 8 + r0 = n"
    using a b c d by simp
  then show ?thesis unfolding q1_def q2_def q3_def r0_def r1_def r2_def r3_def .
qed

lemma unat_byte_of_nat: "unat (of_nat k :: byte) = k mod 256"
  by (simp add: unat_of_nat)

lemma be32_at_be32:
  assumes "n < 2 ^ 32" and "length pre = k"
  shows "be32_at (pre @ be32 n @ post) k = n"
proof -
  have "be32_at (pre @ be32 n @ post) k =
          (n div 2 ^ 24 mod 256) * 2 ^ 24 + (n div 2 ^ 16 mod 256) * 2 ^ 16
           + (n div 2 ^ 8 mod 256) * 2 ^ 8 + n mod 256"
    using assms(2) by (simp add: be32_at_def be32_def nth_append unat_byte_of_nat)
  also have "\<dots> = n" by (rule be32_digits [OF assms(1)])
  finally show ?thesis .
qed


lemma length_dpx_file:
  "length (dpx_file magic w h rows) = length magic + 776 + length (encode_rows rows)"
  by (simp add: dpx_file_def length_be32)

lemma take_magic_dpx_file: "length magic = 4 \<Longrightarrow> take 4 (dpx_file magic w h rows) = magic"
  by (simp add: dpx_file_def)

lemma drop_header_dpx_file:
  "length magic = 4 \<Longrightarrow> drop 780 (dpx_file magic w h rows) = encode_rows rows"
  by (simp add: dpx_file_def length_be32)

lemma width_dpx_file:
  assumes "length magic = 4" and "w < 2 ^ 32"
  shows "be32_at (dpx_file magic w h rows) 772 = w"
proof -
  have e: "dpx_file magic w h rows = (magic @ replicate 768 0) @ be32 w @ (be32 h @ encode_rows rows)"
    by (simp add: dpx_file_def)
  have l: "length (magic @ replicate 768 (0::byte)) = 772" using assms(1) by simp
  show ?thesis unfolding e by (rule be32_at_be32 [OF assms(2) l])
qed

lemma height_dpx_file:
  assumes "length magic = 4" and "h < 2 ^ 32"
  shows "be32_at (dpx_file magic w h rows) 776 = h"
proof -
  have e: "dpx_file magic w h rows = (magic @ replicate 768 0 @ be32 w) @ be32 h @ encode_rows rows"
    by (simp add: dpx_file_def)
  have l: "length (magic @ replicate 768 (0::byte) @ be32 w) = 776"
    using assms(1) by (simp add: length_be32)
  show ?thesis unfolding e by (rule be32_at_be32 [OF assms(2) l])
qed

lemma has_dpx_header_dpx_file:
  "w < 2 ^ 32 \<Longrightarrow> h < 2 ^ 32 \<Longrightarrow> has_dpx_header (dpx_file SDPX w h rows) w h"
  by (simp add: has_dpx_header_def length_dpx_file take_magic_dpx_file width_dpx_file
      height_dpx_file SDPX_def)

lemma length_encode_row: "length (concat (map be16 row)) = 2 * length row"
  by (induction row) (simp_all add: be16_def)

lemma length_encode_rows:
  "list_all (\<lambda>row. length row = n) rows \<Longrightarrow> length (encode_rows rows) = length rows * (2 * n)"
  by (induction rows) (simp_all add: encode_rows_def length_encode_row)

lemma length_encode_raster:
  "well_formed_raster img \<Longrightarrow>
   length (encode_raster img) = 780 + img_height img * row_size (img_width img)"
  using length_encode_rows [of "4 * img_width img" "img_rows img"]
  by (simp add: well_formed_raster_def encode_raster_def length_dpx_file SDPX_def row_size_def)

lemma valid_dpx_encode_raster:
  assumes "well_formed_raster img"
    and "valid_dimensions max_dim (img_width img) (img_height img)" and "max_dim < 2 ^ 32"
  shows "valid_dpx max_dim (encode_raster img) (img_width img) (img_height img)"
proof -
  have "img_width img < 2 ^ 32" and "img_height img < 2 ^ 32"
    using assms(2,3) by (simp_all add: valid_dimensions_def)
  then have "has_dpx_header (encode_raster img) (img_width img) (img_height img)"
    unfolding encode_raster_def by (rule has_dpx_header_dpx_file)
  then show ?thesis
    using assms(2) length_encode_raster [OF assms(1)] by (simp add: valid_dpx_def)
qed


subsection \<open>What load_image can return\<close>

lemma load_image_image: "res_image (load_image fs e file) = None"
proof (cases "fs (g_file_peek_path file)")
  case (Inl en)
  then show ?thesis by (simp add: load_image_unopenable)
next
  case (Inr bs)
  then show ?thesis
    by (cases "length bs < 4") (simp_all add: load_image_short load_image_magic_read)
qed

lemma load_image_error_kind:
  assumes "fails_with (load_image fs e file) k"
  shows "k = IOError \<or> k = TruncatedHeader"
proof (cases "fs (g_file_peek_path file)")
  case (Inl en)
  then show ?thesis
    using assms by (simp add: load_image_unopenable fails_with_def error_kind_def)
next
  case (Inr bs)
  then show ?thesis
    using assms
    by (cases "length bs < 4")
       (simp_all add: load_image_short load_image_magic_read fails_with_def error_kind_def)
qed

lemma load_image_row_reads: "row_reads (load_image fs e file) = []"
proof (cases "fs (g_file_peek_path file)")
  case (Inl en)
  then show ?thesis by (simp add: load_image_unopenable row_reads_def reads_made_def)
next
  case (Inr bs)
  then show ?thesis
    by (cases "length bs < 4")
       (simp_all add: load_image_short load_image_magic_read row_reads_def reads_made_def)
qed

lemma has_dpx_header_length: "has_dpx_header bs w h \<Longrightarrow> 4 \<le> length bs"
  by (simp add: has_dpx_header_def)

subsection \<open>Facts about the concrete files\<close>

lemma scenario1_file_raster:
  "scenario1_file =
     encode_raster \<lparr>img_width = 2, img_height = 1,
       img_rows = [[0x0100, 0x0200, 0x0300, 0xFFFF, 0x0400, 0x0500, 0x0600, 0xFFFF]]\<rparr>"
  by (simp add: scenario1_file_def encode_raster_def)

lemma valid_dpx_scenario1: "valid_dpx 65535 scenario1_file 2 1"
  unfolding scenario1_file_raster
  using valid_dpx_encode_raster [of "\<lparr>img_width = 2, img_height = 1,
       img_rows = [[0x0100, 0x0200, 0x0300, 0xFFFF, 0x0400, 0x0500, 0x0600, 0xFFFF]]\<rparr>" 65535]
  by (simp add: well_formed_raster_def valid_dimensions_def)

lemma length_scenario1: "length scenario1_file = 796"
  unfolding scenario1_file_raster
  by (simp add: length_encode_raster well_formed_raster_def row_size_def)

lemma has_dpx_header_scenario1: "has_dpx_header scenario1_file 2 1"
  using valid_dpx_scenario1 by (simp add: valid_dpx_def)

lemma length_scenario2: "length scenario2_file = 792"
  by (simp add: scenario2_file_def length_scenario1)

lemma has_dpx_header_scenario2: "has_dpx_header scenario2_file 2 1"
  using has_dpx_header_scenario1
  by (simp add: has_dpx_header_def scenario2_file_def length_scenario1 be32_at_def)



lemma has_dpx_header_wide: "has_dpx_header wide_file 0xFFFFFFFF 1"
  unfolding wide_file_def by (rule has_dpx_header_dpx_file) simp_all


lemma well_formed_raster1: "well_formed_raster raster1"
  by (simp add: well_formed_raster_def raster1_def)

lemma scenario_fs_files:
  "scenario_fs ''scenario1.dpx'' = Inr scenario1_file"
  "scenario_fs ''scenario2.dpx'' = Inr scenario2_file"
  "scenario_fs ''scenario3.dpx'' = Inr scenario3_file"
  "scenario_fs ''wide.dpx'' = Inr wide_file"
  "scenario_fs ''short.dpx'' = Inr short_file"
  "scenario_fs ''roundtrip.dpx'' = Inr (encode_raster raster1)"
  "scenario_fs ''missing.dpx'' = Inl ENOENT"
  by (simp_all add: scenario_fs_def)

section \<open>The claims\<close>

text \<open>
  Claim C1. For every DPX file with the magic \<open>SDPX\<close>, dimensions \<open>(w, h)\<close> between 1
  and the ceiling at offsets 772 and 776, and at least \<open>h\<close> complete rows of pixel data
  after them, \<open>load_image\<close> succeeds and returns a raster of \<open>w\<close> by \<open>h\<close> pixels.
  The program does not do so: the file of scenario 1 is such a file, for 2 by 1 pixels and
  the ceiling 65535, and the result of \<open>load_image\<close> on it is no raster of 2 by 1 pixels.
\<close>

theorem valid_dpx_not_decoded:
  "scenario_fs ''scenario1.dpx'' = Inr scenario1_file \<and>
   valid_dpx 65535 scenario1_file 2 1 \<and>
   \<not> returns_raster (load_image scenario_fs 0 (GFile ''scenario1.dpx'')) 2 1"
proof (intro conjI)
  show "scenario_fs ''scenario1.dpx'' = Inr scenario1_file" by (simp add: scenario_fs_files)
  show "valid_dpx 65535 scenario1_file 2 1" by (rule valid_dpx_scenario1)
  show "\<not> returns_raster (load_image scenario_fs 0 (GFile ''scenario1.dpx'')) 2 1"
    by (simp add: returns_raster_def load_image_image)
qed

text \<open>
  Claim C2. For every input file, of any content, readable or not, \<open>load_image\<close>
  returns \<open>NULL\<close>: the variable \<open>image\<close> is initialised to \<open>NULL\<close> and never
  assigned, so no raster is ever produced.
\<close>

theorem load_image_returns_NULL: "res_image (load_image fs e file) = None"
  by (rule load_image_image)




text \<open>
  Claim C4. For every file with the magic \<open>SDPX\<close> and valid dimensions \<open>(w, h)\<close>
  whose pixel data holds fewer than \<open>h\<close> complete rows, decoding fails with
  \<open>PrematureEOF\<close>, and no partially filled raster is returned. The program does not
  report that error: the file of scenario 2 has the header of a 2 by 1 image and 12 of the
  16 bytes of its row, and \<open>load_image\<close> stores no error at all for it.
\<close>

theorem truncated_pixels_not_PrematureEOF:
  "scenario_fs ''scenario2.dpx'' = Inr scenario2_file \<and>
   has_dpx_header scenario2_file 2 1 \<and> valid_dimensions 65535 2 1 \<and>
   length scenario2_file = 780 + 12 \<and> row_size 2 = 16 \<and>
   \<not> fails_with (load_image scenario_fs 0 (GFile ''scenario2.dpx'')) PrematureEOF \<and>
   res_error (load_image scenario_fs 0 (GFile ''scenario2.dpx'')) = None"
proof (intro conjI)
  show "scenario_fs ''scenario2.dpx'' = Inr scenario2_file" by (simp add: scenario_fs_files)
  show "has_dpx_header scenario2_file 2 1" by (rule has_dpx_header_scenario2)
  show "valid_dimensions 65535 2 1" by (simp add: valid_dimensions_def)
  show "length scenario2_file = 780 + 12" by (simp add: length_scenario2)
  show "row_size 2 = 16" by (simp add: row_size_def)
  show "\<not> fails_with (load_image scenario_fs 0 (GFile ''scenario2.dpx'')) PrematureEOF"
    using load_image_error_kind [of scenario_fs 0 "GFile ''scenario2.dpx''" PrematureEOF]
    by auto
  show "res_error (load_image scenario_fs 0 (GFile ''scenario2.dpx'')) = None"
    by (simp add: load_image_magic_read [of scenario_fs _ scenario2_file] scenario_fs_files
        length_scenario2)
qed

text \<open>
  Claim C5. Decoding goes past the validation of the header only with dimensions that are
  positive, at most the ceiling, and whose row size does not overflow; otherwise it fails
  with \<open>DimensionsTooLarge\<close> or \<open>DimensionOverflow\<close>, so that a header with the width
  \<open>0xFFFFFFFF\<close> is rejected. The program does not reject it so: on the file with that
  width \<open>load_image\<close> returns \<open>NULL\<close> and stores no error, neither the one of line 233
  nor any other.
\<close>

theorem wide_header_no_error:
  "scenario_fs ''wide.dpx'' = Inr wide_file \<and>
   has_dpx_header wide_file 0xFFFFFFFF 1 \<and> \<not> valid_dimensions 65535 0xFFFFFFFF 1 \<and>
   res_image (load_image scenario_fs 0 (GFile ''wide.dpx'')) = None \<and>
   res_error (load_image scenario_fs 0 (GFile ''wide.dpx'')) = None \<and>
   \<not> fails_with (load_image scenario_fs 0 (GFile ''wide.dpx'')) DimensionsTooLarge \<and>
   \<not> fails_with (load_image scenario_fs 0 (GFile ''wide.dpx'')) DimensionOverflow"
proof (intro conjI)
  show "scenario_fs ''wide.dpx'' = Inr wide_file" by (simp add: scenario_fs_files)
  show "has_dpx_header wide_file 0xFFFFFFFF 1" by (rule has_dpx_header_wide)
  show "\<not> valid_dimensions 65535 0xFFFFFFFF 1" by (simp add: valid_dimensions_def)
  show "res_image (load_image scenario_fs 0 (GFile ''wide.dpx'')) = None"
    by (rule load_image_image)
  show n: "res_error (load_image scenario_fs 0 (GFile ''wide.dpx'')) = None"
    using has_dpx_header_length [OF has_dpx_header_wide]
    by (simp add: load_image_magic_read [of scenario_fs _ wide_file] scenario_fs_files)
  show "\<not> fails_with (load_image scenario_fs 0 (GFile ''wide.dpx'')) DimensionsTooLarge"
    by (simp add: fails_with_def n)
  show "\<not> fails_with (load_image scenario_fs 0 (GFile ''wide.dpx'')) DimensionOverflow"
    by (simp add: fails_with_def n)
qed

text \<open>
  Claim C6. The file with the magic \<open>SDPX\<close>, the width 2 and the height 1 at offsets
  772 and 776, and the 16 bytes of the big-endian samples
  \<open>0x0100, 0x0200, 0x0300, 0xFFFF, 0x0400, 0x0500, 0x0600, 0xFFFF\<close> decodes to the 2 by 1
  raster with the pixels \<open>(256, 512, 768, 65535)\<close> and \<open>(1024, 1280, 1536, 65535)\<close>.
  The program does not return it: on that file \<open>load_image\<close> returns no raster.
\<close>

theorem scenario1_no_raster:
  "scenario_fs ''scenario1.dpx'' = Inr scenario1_file \<and>
   take 4 scenario1_file = SDPX \<and>
   be32_at scenario1_file 772 = 2 \<and> be32_at scenario1_file 776 = 1 \<and>
   drop 780 scenario1_file = [1, 0, 2, 0, 3, 0, 255, 255, 4, 0, 5, 0, 6, 0, 255, 255] \<and>
   res_image (load_image scenario_fs 0 (GFile ''scenario1.dpx'')) \<noteq>
     Some \<lparr>img_width = 2, img_height = 1,
            img_rows = [[256, 512, 768, 65535, 1024, 1280, 1536, 65535]]\<rparr> \<and>
   \<not> returns_raster (load_image scenario_fs 0 (GFile ''scenario1.dpx'')) 2 1"
proof (intro conjI)
  show "scenario_fs ''scenario1.dpx'' = Inr scenario1_file" by (simp add: scenario_fs_files)
  show "take 4 scenario1_file = SDPX"
    and "be32_at scenario1_file 772 = 2" and "be32_at scenario1_file 776 = 1"
    using has_dpx_header_scenario1 unfolding has_dpx_header_def by blast+
  show "drop 780 scenario1_file = [1, 0, 2, 0, 3, 0, 255, 255, 4, 0, 5, 0, 6, 0, 255, 255]"
    by (simp add: scenario1_file_def drop_header_dpx_file SDPX_def encode_rows_def be16_def)
  show "res_image (load_image scenario_fs 0 (GFile ''scenario1.dpx'')) \<noteq>
     Some \<lparr>img_width = 2, img_height = 1,
            img_rows = [[256, 512, 768, 65535, 1024, 1280, 1536, 65535]]\<rparr>"
    by (simp add: load_image_image)
  show "\<not> returns_raster (load_image scenario_fs 0 (GFile ''scenario1.dpx'')) 2 1"
    by (simp add: returns_raster_def load_image_image)
qed

text \<open>
  Claim C7. Encoding a raster of valid dimensions into big-endian rows behind a valid
  \<open>SDPX\<close> header and decoding the bytes gives the raster back. The program does not:
  the well-formed raster \<open>raster1\<close> of 1 by 2 pixels is encoded into a valid DPX file, and
  \<open>load_image\<close> on that file does not return \<open>raster1\<close>.
\<close>

theorem roundtrip_not_identity:
  "well_formed_raster raster1 \<and> valid_dimensions 65535 (img_width raster1) (img_height raster1) \<and>
   scenario_fs ''roundtrip.dpx'' = Inr (encode_raster raster1) \<and>
   valid_dpx 65535 (encode_raster raster1) (img_width raster1) (img_height raster1) \<and>
   res_image (load_image scenario_fs 0 (GFile ''roundtrip.dpx'')) \<noteq> Some raster1"
proof (intro conjI)
  show w: "well_formed_raster raster1" by (rule well_formed_raster1)
  show v: "valid_dimensions 65535 (img_width raster1) (img_height raster1)"
    by (simp add: valid_dimensions_def raster1_def)
  show "scenario_fs ''roundtrip.dpx'' = Inr (encode_raster raster1)"
    by (simp add: scenario_fs_files)
  show "valid_dpx 65535 (encode_raster raster1) (img_width raster1) (img_height raster1)"
    using w v by (rule valid_dpx_encode_raster) simp
  show "res_image (load_image scenario_fs 0 (GFile ''roundtrip.dpx'')) \<noteq> Some raster1"
    by (simp add: load_image_image)
qed

text \<open>
  Claim C8. For every input file of fewer than four bytes, the read of the header fails:
  \<open>load_image\<close> stores the error of the header read, the specification's
  \<open>TruncatedHeader\<close>, closes the stream and returns \<open>NULL\<close>.
\<close>

theorem load_image_truncated_header:
  assumes "fs (g_file_peek_path file) = Inr bs" and "length bs < 4"
  shows "fails_with (load_image fs e file) TruncatedHeader \<and>
         res_image (load_image fs e file) = None \<and>
         res_error (load_image fs e file) =
           Some \<lparr>domain = G_FILE_ERROR, from_errno = e,
                  message = ''Failed to read Dpx header''\<rparr> \<and>
         map_option f_closed (res_fp (load_image fs e file)) = Some True"
  using assms by (simp add: load_image_short fails_with_def error_kind_def)

theorem load_image_truncated_header_witness:
  "scenario_fs (g_file_peek_path (GFile ''short.dpx'')) = Inr short_file \<and>
   length short_file < 4 \<and>
   fails_with (load_image scenario_fs 0 (GFile ''short.dpx'')) TruncatedHeader \<and>
   res_image (load_image scenario_fs 0 (GFile ''short.dpx'')) = None \<and>
   res_error (load_image scenario_fs 0 (GFile ''short.dpx'')) =
     Some \<lparr>domain = G_FILE_ERROR, from_errno = 0, message = ''Failed to read Dpx header''\<rparr> \<and>
   map_option f_closed (res_fp (load_image scenario_fs 0 (GFile ''short.dpx''))) = Some True"
proof -
  have a: "scenario_fs (g_file_peek_path (GFile ''short.dpx'')) = Inr short_file"
    by (simp add: scenario_fs_files)
  have b: "length short_file < 4" by (simp add: short_file_def)
  from a b
    load_image_truncated_header [where fs = scenario_fs and bs = short_file and e = 0, OF a b]
  show ?thesis by blast
qed

text \<open>
  Claim C9. During a decode of a file of height \<open>h\<close>, the rows \<open>0, \<dots>, h - 1\<close> are
  read in this order, each once. The program reads no row: on the file of scenario 1, of
  height 1, the one read of the stream is that of the four magic bytes at offset 0, and
  the read of row 0, 16 bytes at offset 780, is not made.
\<close>

theorem rows_not_read:
  "scenario_fs ''scenario1.dpx'' = Inr scenario1_file \<and>
   has_dpx_header scenario1_file 2 1 \<and>
   expected_row_reads 2 1 = [(780, 16)] \<and>
   reads_made (load_image scenario_fs 0 (GFile ''scenario1.dpx'')) = [(0, 4)] \<and>
   \<not> rows_read_in_order (load_image scenario_fs 0 (GFile ''scenario1.dpx'')) 2 1"
proof (intro conjI)
  show "scenario_fs ''scenario1.dpx'' = Inr scenario1_file" by (simp add: scenario_fs_files)
  show "has_dpx_header scenario1_file 2 1" by (rule has_dpx_header_scenario1)
  show e: "expected_row_reads 2 1 = [(780, 16)]"
    by (simp add: expected_row_reads_def row_size_def)
  show "reads_made (load_image scenario_fs 0 (GFile ''scenario1.dpx'')) = [(0, 4)]"
    by (simp add: load_image_magic_read [of scenario_fs _ scenario1_file] scenario_fs_files
        length_scenario1 reads_made_def)
  show "\<not> rows_read_in_order (load_image scenario_fs 0 (GFile ''scenario1.dpx'')) 2 1"
    unfolding rows_read_in_order_def e by (simp add: load_image_row_reads)
qed

text \<open>
  Claim C10. For every file from which the read of the four magic bytes succeeds,
  \<open>load_image\<close> returns \<open>NULL\<close> and leaves the caller's \<open>GError\<close> unset, so
  \<open>dpx_load\<close> returns the status \<open>GIMP_PDB_EXECUTION_ERROR\<close> with a \<open>NULL\<close> error.
\<close>

theorem dpx_load_NULL_error:
  assumes "g_fopen fs (g_file_peek_path file) e = (Some fp, e')"
    and "fst (snd (fread 4 1 fp)) \<noteq> 0"
  shows "res_image (load_image fs e file) = None \<and>
         res_error (load_image fs e file) = None \<and>
         dpx_load fs e file =
           \<lparr>val_status = GIMP_PDB_EXECUTION_ERROR, val_error = None, val_image = None\<rparr>"
proof -
  obtain buf n fp1 where r: "fread 4 1 fp = (buf, n, fp1)" by (cases "fread 4 1 fp") auto
  with assms(2) have "n \<noteq> 0" by simp
  with assms(1) r have "res_error (load_image fs e file) = None"
    by (simp add: load_image_def)
  then show ?thesis
    by (simp add: load_image_image dpx_load_def gimp_procedure_new_return_values_def)
qed

theorem dpx_load_NULL_error_witness:
  "g_fopen scenario_fs (g_file_peek_path (GFile ''scenario1.dpx'')) 0 =
     (Some \<lparr>f_data = scenario1_file, f_pos = 0, f_reads = [], f_closed = False\<rparr>, 0) \<and>
   fst (snd (fread 4 1 \<lparr>f_data = scenario1_file, f_pos = 0, f_reads = [], f_closed = False\<rparr>))
     \<noteq> 0 \<and>
   res_image (load_image scenario_fs 0 (GFile ''scenario1.dpx'')) = None \<and>
   res_error (load_image scenario_fs 0 (GFile ''scenario1.dpx'')) = None \<and>
   dpx_load scenario_fs 0 (GFile ''scenario1.dpx'') =
     \<lparr>val_status = GIMP_PDB_EXECUTION_ERROR, val_error = None, val_image = None\<rparr>"
proof -
  have a: "g_fopen scenario_fs (g_file_peek_path (GFile ''scenario1.dpx'')) 0 =
     (Some \<lparr>f_data = scenario1_file, f_pos = 0, f_reads = [], f_closed = False\<rparr>, 0)"
    by (simp add: g_fopen_def scenario_fs_files)
  have b: "fst (snd (fread 4 1
      \<lparr>f_data = scenario1_file, f_pos = 0, f_reads = [], f_closed = False\<rparr>)) \<noteq> 0"
    by (simp add: fread_def Let_def length_scenario1)
  from a b dpx_load_NULL_error [OF a b]
  show ?thesis by blast
qed

end
